theory Spec2Isabelle
  imports Main
begin

section \<open>Python strings\<close>

text \<open>
  Python \<open>str\<close> values are modelled as \<open>string\<close>. The denylist patterns and every literal
  of the program are ASCII; \<open>lower\<close> and \<open>upper\<close> map the ASCII letters and leave every other
  character alone, and \<open>strip\<close> removes the ASCII whitespace of \<open>str.strip()\<close>.
\<close>

fun starts_with :: "string \<Rightarrow> string \<Rightarrow> bool" where
  "starts_with [] s = True"
| "starts_with (p # ps) [] = False"
| "starts_with (p # ps) (c # cs) = (p = c \<and> starts_with ps cs)"

text \<open>\<open>contains p s\<close> is Python's \<open>p in s\<close> on two strings: \<open>p\<close> occurs in \<open>s\<close> as a substring.\<close>

fun contains :: "string \<Rightarrow> string \<Rightarrow> bool" where
  "contains p [] = (p = [])"
| "contains p (c # cs) = (starts_with p (c # cs) \<or> contains p cs)"

definition lower_char :: "char \<Rightarrow> char" where
  "lower_char c =
     (if 65 \<le> (of_char c :: nat) \<and> (of_char c :: nat) \<le> 90
      then char_of ((of_char c :: nat) + 32) else c)"

definition lower :: "string \<Rightarrow> string" where
  "lower s = map lower_char s"



definition is_space :: "char \<Rightarrow> bool" where
  "is_space c = ((of_char c :: nat) \<in> {9, 10, 11, 12, 13, 28, 29, 30, 31, 32})"

definition strip :: "string \<Rightarrow> string" where
  "strip s = rev (dropWhile is_space (rev (dropWhile is_space s)))"

fun str_nat :: "nat \<Rightarrow> string" where
  "str_nat n =
     (if n < 10 then [char_of (48 + n)]
      else str_nat (n div 10) @ [char_of (48 + n mod 10)])"

text \<open>\<open>str_int\<close> is Python's \<open>str\<close> on an \<open>int\<close>, as an f-string inserts it.\<close>

definition str_int :: "int \<Rightarrow> string" where
  "str_int i = (if i < 0 then CHR ''-'' # str_nat (nat (- i)) else str_nat (nat i))"

text \<open>\<open>x or ''\<close> on an optional string: \<open>None\<close> and the empty string both give the empty string.\<close>

definition or_empty :: "string option \<Rightarrow> string" where
  "or_empty x = (case x of None \<Rightarrow> [] | Some s \<Rightarrow> s)"

section \<open>The command sandbox: \<open>SafeSubprocess.run\<close>\<close>

text \<open>
  What the operating system does with a spawned command is not part of the program: it is
  the value \<open>popen_result\<close> that the run is given for the command and the timeout.
  \<^item> \<open>LaunchFailed msg\<close>: \<open>subprocess.Popen\<close> or the first \<open>communicate\<close> raised an exception
    (other than \<open>TimeoutExpired\<close>) whose \<open>str\<close> is \<open>msg\<close>;
  \<^item> \<open>Exited rc out err\<close>: the process ended within the timeout;
  \<^item> \<open>TimedOut c\<close>: the first \<open>communicate\<close> raised \<open>TimeoutExpired\<close>. The handler then
    calls \<open>process.kill()\<close> and a second \<open>communicate()\<close>, which has no timeout, and \<open>c\<close>
    says how that went:
    \<^item> \<open>Collected outs errs\<close>: both calls returned, the second one with \<open>outs\<close> and \<open>errs\<close>;
    \<^item> \<open>CleanupFailed msg\<close>: one of the two calls raised an exception whose \<open>str\<close> is
      \<open>msg\<close>; both calls stand inside the outer \<open>try\<close>, whose handler answers;
    \<^item> \<open>NeverReturns\<close>: the second \<open>communicate()\<close> does not return. \<open>kill\<close> signals the
      shell only (\<open>shell=True\<close>), and \<open>communicate\<close> reads until every holder of the pipes
      has closed them, so a child of the shell that stays alive keeps it waiting.
  The result of \<open>run\<close> is \<open>None\<close> when the call does not return. The process events of a run
  are recorded in the order they happen.
\<close>

datatype cleanup =
    Collected "string option" "string option"
  | CleanupFailed string
  | NeverReturns

datatype popen_result =
    LaunchFailed string
  | Exited int string string
  | TimedOut cleanup

datatype proc_event = Popen string | Kill

type_synonym os = "string \<Rightarrow> int \<Rightarrow> popen_result"

definition default_timeout :: int where
  "default_timeout = 60"

definition forbidden_patterns :: "string list" where
  "forbidden_patterns = [''rm -rf /'', ''format c:'', ''rd /s /q c:'' @ [char_of (92 :: nat)]]"

definition blocked :: "string \<Rightarrow> bool" where
  "blocked command = list_ex (\<lambda>pattern. contains pattern (lower command)) forbidden_patterns"

definition run ::
  "os \<Rightarrow> string \<Rightarrow> int option \<Rightarrow> (int \<times> string \<times> string) option \<times> proc_event list" where
  "run os command timeout =
     (if blocked command
      then (Some (- 1, [], ''CRITICAL SECURITY: Command blocked by SafeSubprocess: '' @ command),
            [])
      else
        let timeout_val = (case timeout of Some t \<Rightarrow> t | None \<Rightarrow> default_timeout) in
        (case os command timeout_val of
           Exited returncode stdout stderr \<Rightarrow>
             (Some (returncode, stdout, stderr), [Popen command])
         | TimedOut (Collected outs errs) \<Rightarrow>
             (Some (124, or_empty outs,
                    ''Command timed out after '' @ str_int timeout_val @ ''s. '' @ or_empty errs),
              [Popen command, Kill])
         | TimedOut (CleanupFailed msg) \<Rightarrow>
             (Some (- 1, [], ''Execution failed: '' @ msg), [Popen command, Kill])
         | TimedOut NeverReturns \<Rightarrow> (None, [Popen command, Kill])
         | LaunchFailed msg \<Rightarrow> (Some (- 1, [], ''Execution failed: '' @ msg), [Popen command])))"

section \<open>The shared state\<close>

text \<open>
  A function that can raise returns \<open>exn + 'a\<close>, with \<open>Inl\<close> the exception. A node that can
  also fail to return (it waits for \<open>run\<close>) has a \<open>result\<close>.
\<close>

datatype exn = IndexError | KeyError string | TypeError | JSONDecodeError

datatype 'a result = Returned 'a | Raises exn | Hangs

datatype pyval = PyNone | PyStr string | PyInt int

datatype message = HumanMessage string | SystemMessage string | AIMessage string


text \<open>
  \<open>PlanStep\<close> is the \<open>TypedDict\<close> of \<open>state.py\<close>. Its \<open>command\<close> is read with \<open>dict.get\<close>, in
  \<open>safety_guard\<close> with a default, so the field tells three cases apart: \<open>None\<close> when the step
  has no \<open>command\<close> key, \<open>Some None\<close> when the key is there with the value \<open>None\<close> (JSON
  \<open>null\<close>), and \<open>Some (Some text)\<close>. \<open>dict_get field dflt\<close> is \<open>step.get(key, dflt)\<close>.
\<close>

record PlanStep =
  id_step :: string
  description :: string
  command :: "string option option"
  risk_level :: string
  status :: string
  output_step :: "string option"

definition dict_get :: "'a option option \<Rightarrow> 'a option \<Rightarrow> 'a option" where
  "dict_get field dflt = (case field of None \<Rightarrow> dflt | Some v \<Rightarrow> v)"

type_synonym history_item = "(string \<times> pyval) list"

text \<open>
  \<open>GlobalState\<close> is a \<open>TypedDict\<close> too; a key that no node has written yet is absent, which
  is \<open>None\<close> for the fields that the program reads with \<open>state.get\<close>. The type of the plan is
  a parameter: the planner stores what \<open>json.loads\<close> returned, the executor reads a list of
  \<open>PlanStep\<close>. \<open>grader_decision\<close> and \<open>route_target\<close> stand for the keys \<open>_grader_decision\<close> and
  \<open>_route_target\<close>, which nodes return but the class does not declare.

  A node returns a partial update, a dict with some of the keys. The graph engine merges
  it into the state: \<open>messages\<close> has the reducer \<open>add_messages\<close>, which appends the new
  messages; every other key is overwritten. For the two undeclared keys \<open>merge\<close> takes the
  engine's behaviour as a parameter: they are kept, or dropped.
\<close>

record 'p GlobalState =
  messages :: "message list"
  plan :: 'p
  current_step_index :: "int option"
  research_outputs :: "string list option"
  execution_history :: "history_item list option"
  user_validated :: "bool option"
  file_context :: "(string \<times> string) list option"
  grader_decision :: "string option"
  route_target :: "string option"

record 'p update =
  u_messages :: "message list option"
  u_plan :: "'p option"
  u_current_step_index :: "int option"
  u_research_outputs :: "string list option"
  u_execution_history :: "history_item list option"
  u_user_validated :: "bool option"
  u_grader_decision :: "string option"
  u_route_target :: "string option"

definition no_update :: "'p update" where
  "no_update = \<lparr>u_messages = None, u_plan = None, u_current_step_index = None,
                 u_research_outputs = None, u_execution_history = None,
                 u_user_validated = None, u_grader_decision = None, u_route_target = None\<rparr>"

definition overwrite :: "'a option \<Rightarrow> 'a option \<Rightarrow> 'a option" where
  "overwrite old new = (case new of None \<Rightarrow> old | Some v \<Rightarrow> Some v)"

definition apply_update :: "'p GlobalState \<Rightarrow> 'p update \<Rightarrow> 'p GlobalState" where
  "apply_update state u =
     \<lparr>messages = (case u_messages u of None \<Rightarrow> messages state | Some new \<Rightarrow> messages state @ new),
      plan = (case u_plan u of None \<Rightarrow> plan state | Some p \<Rightarrow> p),
      current_step_index = overwrite (current_step_index state) (u_current_step_index u),
      research_outputs = overwrite (research_outputs state) (u_research_outputs u),
      execution_history = overwrite (execution_history state) (u_execution_history u),
      user_validated = overwrite (user_validated state) (u_user_validated u),
      file_context = file_context state,
      grader_decision = overwrite (grader_decision state) (u_grader_decision u),
      route_target = overwrite (route_target state) (u_route_target u)\<rparr>"


subsection \<open>Python list indexing\<close>

text \<open>
  \<open>xs[i]\<close> counts a negative \<open>i\<close> from the end and raises \<open>IndexError\<close> out of range.
\<close>

definition py_pos :: "'a list \<Rightarrow> int \<Rightarrow> nat option" where
  "py_pos xs i =
     (if 0 \<le> i \<and> i < int (length xs) then Some (nat i)
      else if i < 0 \<and> - int (length xs) \<le> i then Some (nat (int (length xs) + i))
      else None)"

definition getitem :: "'a list \<Rightarrow> int \<Rightarrow> exn + 'a" where
  "getitem xs i = (case py_pos xs i of None \<Rightarrow> Inl IndexError | Some k \<Rightarrow> Inr (xs ! k))"

definition setitem :: "'a list \<Rightarrow> int \<Rightarrow> 'a \<Rightarrow> exn + 'a list" where
  "setitem xs i v = (case py_pos xs i of None \<Rightarrow> Inl IndexError | Some k \<Rightarrow> Inr (xs[k := v]))"

section \<open>The executor nodes\<close>

type_synonym exec_state = "PlanStep list GlobalState"
type_synonym exec_update = "PlanStep list update"

definition step_parser :: "exec_state \<Rightarrow> exn + exec_update" where
  "step_parser state =
     (let idx = (case current_step_index state of Some i \<Rightarrow> i | None \<Rightarrow> 0) in
      if idx \<ge> int (length (plan state))
      then Inr (no_update\<lparr>u_current_step_index := Some idx\<rparr>)
      else
        (case getitem (plan state) idx of
           Inl e \<Rightarrow> Inl e
         | Inr current_step \<Rightarrow>
             (case setitem (plan state) idx (current_step\<lparr>status := ''in_progress''\<rparr>) of
                Inl e \<Rightarrow> Inl e
              | Inr plan' \<Rightarrow> Inr (no_update\<lparr>u_plan := Some plan'\<rparr>))))"

text \<open>
  In \<open>safety_guard\<close> the test of \<open>user_validated\<close> has the body \<open>pass\<close> and leaves no trace
  in the model. \<open>"rm -rf /" in command\<close> raises \<open>TypeError\<close> when \<open>command\<close> is \<open>None\<close>.
\<close>

definition safety_guard :: "exec_state \<Rightarrow> exn + exec_update" where
  "safety_guard state =
     (case current_step_index state of
        None \<Rightarrow> Inl (KeyError ''current_step_index'')
      | Some idx \<Rightarrow>
          (case getitem (plan state) idx of
             Inl e \<Rightarrow> Inl e
           | Inr step \<Rightarrow>
               (case dict_get (command step) (Some []) of
                  None \<Rightarrow> Inl TypeError
                | Some text \<Rightarrow>
                    if contains ''rm -rf /'' text
                    then Inr (no_update\<lparr>u_plan := Some (plan state)\<rparr>)
                    else Inr no_update)))"

text \<open>\<open>not command\<close> holds of \<open>None\<close> and of the empty string.\<close>

definition falsy :: "string option \<Rightarrow> bool" where
  "falsy c = (c = None \<or> c = Some [])"

text \<open>
  \<open>terminal_runner\<close> gives back its update together with what the run log records of the
  visit: \<open>None\<close> when the step had no command, otherwise the exit code; and the process
  events of the sandbox. It hangs when \<open>run\<close> does not return.
\<close>

definition terminal_runner ::
  "os \<Rightarrow> exec_state \<Rightarrow> (exec_update \<times> int option) result \<times> proc_event list" where
  "terminal_runner os state =
     (case current_step_index state of
        None \<Rightarrow> (Raises (KeyError ''current_step_index''), [])
      | Some idx \<Rightarrow>
          (case getitem (plan state) idx of
             Inl e \<Rightarrow> (Raises e, [])
           | Inr step \<Rightarrow>
               if falsy (dict_get (command step) None) then
                 (case setitem (plan state) idx
                         (step\<lparr>status := ''done'', output_step := Some ''(No command executed)''\<rparr>) of
                    Inl e \<Rightarrow> (Raises e, [])
                  | Inr plan' \<Rightarrow>
                      (Returned
                         (no_update\<lparr>u_plan := Some plan',
                                     u_current_step_index := Some (idx + 1),
                                     u_execution_history :=
                                       Some ((case execution_history state of
                                                None \<Rightarrow> [] | Some h \<Rightarrow> h) @
                                             [[(''command'', PyNone),
                                               (''output'', PyStr ''Skipped (no command)'')]])\<rparr>,
                          None),
                       []))
               else
                 (case run os (the (dict_get (command step) None)) None of
                    (None, events) \<Rightarrow> (Hangs, events)
                  | (Some (return_code, stdout, stderr), events) \<Rightarrow>
                      let out = stdout @ [CHR 0x0A] @ stderr;
                          history_item = [(''step_id'', PyStr (id_step step)),
                                          (''command'', PyStr (the (dict_get (command step) None))),
                                          (''return_code'', PyInt return_code),
                                          (''output'', PyStr out)]
                      in if return_code = 0 then
                           (case setitem (plan state) idx
                                   (step\<lparr>status := ''done'', output_step := Some out\<rparr>) of
                              Inl e \<Rightarrow> (Raises e, events)
                            | Inr plan' \<Rightarrow>
                                (Returned
                                   (no_update\<lparr>u_plan := Some plan',
                                               u_current_step_index := Some (idx + 1),
                                               u_execution_history :=
                                                 Some ((case execution_history state of
                                                          None \<Rightarrow> [] | Some h \<Rightarrow> h) @
                                                       [history_item])\<rparr>,
                                    Some return_code),
                                 events))
                         else
                           (case setitem (plan state) idx
                                   (step\<lparr>status := ''failed'', output_step := Some out\<rparr>) of
                              Inl e \<Rightarrow> (Raises e, events)
                            | Inr plan' \<Rightarrow>
                                (Returned
                                   (no_update\<lparr>u_plan := Some plan',
                                               u_execution_history :=
                                                 Some ((case execution_history state of
                                                          None \<Rightarrow> [] | Some h \<Rightarrow> h) @
                                                       [history_item])\<rparr>,
                                    Some return_code),
                                 events)))))"

text \<open>
  \<open>error_handler\<close> appends its message to the list it read from the state and returns the
  whole list; \<open>add_messages\<close> keeps the messages it already has and appends the new one, so
  the update of the model holds the new message alone.
\<close>

definition error_handler :: "exec_state \<Rightarrow> exn + exec_update" where
  "error_handler state =
     (case current_step_index state of
        None \<Rightarrow> Inl (KeyError ''current_step_index'')
      | Some idx \<Rightarrow>
          Inr (no_update\<lparr>u_messages :=
                 Some [SystemMessage (''Execution failed at step '' @ str_int (idx + 1) @ ''.'')]\<rparr>))"

text \<open>\<open>check_step_completion\<close> is defined in \<open>executor.py\<close> and used by no edge.\<close>

definition check_step_completion :: "exec_state \<Rightarrow> exn + string" where
  "check_step_completion state =
     (let idx = (case current_step_index state of Some i \<Rightarrow> i | None \<Rightarrow> 0) in
      if idx \<ge> int (length (plan state)) then Inr ''end''
      else
        (case getitem (plan state) idx of
           Inl e \<Rightarrow> Inl e
         | Inr step \<Rightarrow> if status step = ''failed'' then Inr ''end'' else Inr ''terminal_runner''))"

definition check_execution_result :: "exec_state \<Rightarrow> exn + string" where
  "check_execution_result state =
     (case current_step_index state of
        None \<Rightarrow> Inl (KeyError ''current_step_index'')
      | Some idx \<Rightarrow>
          (case getitem (plan state) idx of
             Inl e \<Rightarrow> Inl e
           | Inr current_step \<Rightarrow>
               if status current_step = ''failed'' then Inr ''error_handler''
               else if idx \<ge> int (length (plan state)) then Inr ''step_parser''
               else Inr ''step_parser''))"

section \<open>The executor graph\<close>

text \<open>
  \<open>create_executor_graph\<close>: the entry point is \<open>step_parser\<close>; the edges \<open>step_parser\<close> to
  \<open>safety_guard\<close> and \<open>safety_guard\<close> to \<open>terminal_runner\<close> are unconditional; after
  \<open>terminal_runner\<close> the routing function \<open>check_execution_result\<close> chooses \<open>step_parser\<close> or
  \<open>error_handler\<close>; \<open>error_handler\<close> leads to \<open>END\<close>.

  A run of the graph is logged: how it ended (at \<open>END\<close>, by an exception raised in a node or
  in the routing function after it, or stuck in a node that does not return), the final
  state, the nodes visited, for each completed visit of \<open>terminal_runner\<close> the value of
  \<open>current_step_index\<close> it ran with and its outcome, and the process events. The operating
  system is given for each visit of \<open>terminal_runner\<close> separately (\<open>w k\<close> for the visit
  number \<open>k\<close>).
\<close>

datatype ending = Ended | Raised string exn | Stuck string

record run_log =
  ending :: ending
  final :: exec_state
  visited :: "string list"
  executed :: "(int \<times> int option) list"
  processes :: "proc_event list"

definition END :: string where
  "END = ''__end__''"

definition quiet ::
  "exn + exec_update \<Rightarrow> (exec_update \<times> (int \<times> int option) list) result \<times> proc_event list" where
  "quiet r = (case r of Inl e \<Rightarrow> (Raises e, []) | Inr u \<Rightarrow> (Returned (u, []), []))"

definition executor_node ::
  "os \<Rightarrow> string \<Rightarrow> exec_state \<Rightarrow>
     (exec_update \<times> (int \<times> int option) list) result \<times> proc_event list" where
  "executor_node os node state =
     (if node = ''step_parser'' then quiet (step_parser state)
      else if node = ''safety_guard'' then quiet (safety_guard state)
      else if node = ''terminal_runner'' then
        (case terminal_runner os state of
           (Raises e, events) \<Rightarrow> (Raises e, events)
         | (Hangs, events) \<Rightarrow> (Hangs, events)
         | (Returned (u, return_code), events) \<Rightarrow>
             (Returned (u, [(the (current_step_index state), return_code)]), events))
      else if node = ''error_handler'' then quiet (error_handler state)
      else (Raises (KeyError node), []))"

definition executor_edge :: "string \<Rightarrow> exec_state \<Rightarrow> exn + string" where
  "executor_edge node state =
     (if node = ''step_parser'' then Inr ''safety_guard''
      else if node = ''safety_guard'' then Inr ''terminal_runner''
      else if node = ''terminal_runner'' then check_execution_result state
      else if node = ''error_handler'' then Inr END
      else Inl (KeyError node))"

definition logged ::
  "string \<Rightarrow> (int \<times> int option) list \<Rightarrow> proc_event list \<Rightarrow> run_log \<Rightarrow> run_log" where
  "logged node ex ev r =
     r\<lparr>visited := node # visited r, executed := ex @ executed r, processes := ev @ processes r\<rparr>"

definition stopped ::
  "ending \<Rightarrow> string \<Rightarrow> exec_state \<Rightarrow> (int \<times> int option) list \<Rightarrow> proc_event list \<Rightarrow> run_log" where
  "stopped how node state ex ev =
     \<lparr>ending = how, final = state, visited = [node], executed = ex, processes = ev\<rparr>"

definition remaining :: "exec_state \<Rightarrow> nat" where
  "remaining state =
     nat (int (length (plan state)) - (case current_step_index state of Some i \<Rightarrow> i | None \<Rightarrow> 0))"

definition rank :: "string \<Rightarrow> nat" where
  "rank node =
     (if node = ''step_parser'' then 4
      else if node = ''safety_guard'' then 3
      else if node = ''terminal_runner'' then 2
      else if node = ''error_handler'' then 1
      else 0)"

function executor_walk :: "(nat \<Rightarrow> os) \<Rightarrow> nat \<Rightarrow> string \<Rightarrow> exec_state \<Rightarrow> run_log" where
  "executor_walk w k node state =
     (if node = END
      then \<lparr>ending = Ended, final = state, visited = [], executed = [], processes = []\<rparr>
      else
        (case executor_node (w k) node state of
           (Raises e, ev) \<Rightarrow> stopped (Raised node e) node state [] ev
         | (Hangs, ev) \<Rightarrow> stopped (Stuck node) node state [] ev
         | (Returned (u, ex), ev) \<Rightarrow>
             (case executor_edge node (apply_update state u) of
                Inl e \<Rightarrow> stopped (Raised node e) node (apply_update state u) ex ev
              | Inr next_node \<Rightarrow>
                  logged node ex ev
                    (executor_walk w (k + length ex) next_node (apply_update state u)))))"
  by pat_completeness auto

subsection \<open>Every run of the graph is finite\<close>

lemma py_pos_Some: "py_pos xs i = Some k \<Longrightarrow> k < length xs \<and> i < int (length xs)"
  by (auto simp: py_pos_def split: if_splits)

lemma py_pos_same_length: "length xs = length ys \<Longrightarrow> py_pos xs i = py_pos ys i"
  by (simp add: py_pos_def)

lemma getitem_Inr:
  "getitem xs i = Inr x \<Longrightarrow>
     \<exists>k. py_pos xs i = Some k \<and> k < length xs \<and> i < int (length xs) \<and> x = xs ! k"
  by (auto simp: getitem_def dest: py_pos_Some split: option.splits)

lemma setitem_Inr: "setitem xs i v = Inr ys \<Longrightarrow> \<exists>k. py_pos xs i = Some k \<and> ys = xs[k := v]"
  by (auto simp: setitem_def split: option.splits)

lemma setitem_length: "setitem xs i v = Inr ys \<Longrightarrow> length ys = length xs"
  by (auto dest: setitem_Inr)

lemma step_parser_remaining:
  "step_parser state = Inr u \<Longrightarrow> remaining (apply_update state u) = remaining state"
  by (auto simp: step_parser_def remaining_def apply_update_def no_update_def overwrite_def Let_def
           dest: setitem_length split: if_splits sum.splits option.splits)

lemma safety_guard_remaining:
  "safety_guard state = Inr u \<Longrightarrow> remaining (apply_update state u) = remaining state"
  by (auto simp: safety_guard_def remaining_def apply_update_def no_update_def overwrite_def
           split: if_splits sum.splits option.splits)

lemma error_handler_remaining:
  "error_handler state = Inr u \<Longrightarrow> remaining (apply_update state u) = remaining state"
  by (auto simp: error_handler_def remaining_def apply_update_def no_update_def overwrite_def
           split: if_splits sum.splits option.splits)

lemma terminal_runner_Returned:
  assumes "terminal_runner os state = (Returned (u, rc), ev)"
  shows "\<exists>idx k. current_step_index state = Some idx \<and> py_pos (plan state) idx = Some k \<and>
           length (plan (apply_update state u)) = length (plan state) \<and>
           ((current_step_index (apply_update state u) = Some (idx + 1) \<and> (rc = None \<or> rc = Some 0)
             \<and> status (plan (apply_update state u) ! k) = ''done'')
            \<or> (current_step_index (apply_update state u) = Some idx \<and> (\<exists>c. rc = Some c \<and> c \<noteq> 0)
                \<and> status (plan (apply_update state u) ! k) = ''failed''))"
  using assms
  by (auto simp: terminal_runner_def apply_update_def no_update_def overwrite_def Let_def
           dest!: getitem_Inr setitem_Inr
           split: if_splits sum.splits option.splits prod.splits)

lemma check_execution_result_Inr:
  "check_execution_result state = Inr n \<Longrightarrow>
     \<exists>idx k. current_step_index state = Some idx \<and> py_pos (plan state) idx = Some k \<and>
       k < length (plan state) \<and> idx < int (length (plan state)) \<and>
       n = (if status (plan state ! k) = ''failed'' then ''error_handler'' else ''step_parser'')"
  by (auto simp: check_execution_result_def dest!: getitem_Inr
           split: option.splits sum.splits if_splits)

lemma executor_node_simps:
  "executor_node os ''step_parser'' state = quiet (step_parser state)"
  "executor_node os ''safety_guard'' state = quiet (safety_guard state)"
  "executor_node os ''terminal_runner'' state =
     (case terminal_runner os state of
        (Raises e, events) \<Rightarrow> (Raises e, events)
      | (Hangs, events) \<Rightarrow> (Hangs, events)
      | (Returned (u, return_code), events) \<Rightarrow>
          (Returned (u, [(the (current_step_index state), return_code)]), events))"
  "executor_node os ''error_handler'' state = quiet (error_handler state)"
  by (simp_all add: executor_node_def)

lemma executor_edge_simps:
  "executor_edge ''step_parser'' state = Inr ''safety_guard''"
  "executor_edge ''safety_guard'' state = Inr ''terminal_runner''"
  "executor_edge ''terminal_runner'' state = check_execution_result state"
  "executor_edge ''error_handler'' state = Inr END"
  by (simp_all add: executor_edge_def)

lemma rank_simps:
  "rank ''step_parser'' = 4" "rank ''safety_guard'' = 3" "rank ''terminal_runner'' = 2"
  "rank ''error_handler'' = 1" "rank END = 0"
  by (simp_all add: rank_def END_def)

lemma executor_node_cases:
  assumes "executor_node os node state = (Returned r, ev)"
  shows "node = ''step_parser'' \<or> node = ''safety_guard'' \<or> node = ''terminal_runner''
         \<or> node = ''error_handler''"
proof (rule ccontr)
  assume "\<not> ?thesis"
  then have "executor_node os node state = (Raises (KeyError node), [])"
    by (simp add: executor_node_def)
  with assms show False by simp
qed

lemma quiet_Returned: "quiet r = (Returned (u, ex), ev) \<Longrightarrow> r = Inr u \<and> ex = [] \<and> ev = []"
  by (cases r) (auto simp: quiet_def)

lemma executor_step_decreases:
  assumes "executor_node os node state = (Returned (u, ex), ev)"
    and "executor_edge node (apply_update state u) = Inr next_node"
  shows "remaining (apply_update state u) < remaining state \<or>
   (remaining (apply_update state u) = remaining state \<and> rank next_node < rank node)"
proof -
  consider (a) "node = ''step_parser''" | (b) "node = ''safety_guard''"
    | (c) "node = ''terminal_runner''" | (d) "node = ''error_handler''"
    using executor_node_cases[OF assms(1)] by blast
  then show ?thesis
  proof cases
    case a
    with assms(1) have "step_parser state = Inr u"
      by (simp add: executor_node_simps quiet_Returned)
    moreover from a assms(2) have "next_node = ''safety_guard''"
      by (simp add: executor_edge_simps)
    ultimately show ?thesis using a by (simp add: step_parser_remaining rank_simps)
  next
    case b
    with assms(1) have "safety_guard state = Inr u"
      by (simp add: executor_node_simps quiet_Returned)
    moreover from b assms(2) have "next_node = ''terminal_runner''"
      by (simp add: executor_edge_simps)
    ultimately show ?thesis using b by (simp add: safety_guard_remaining rank_simps)
  next
    case c
    then obtain rc where tr: "terminal_runner os state = (Returned (u, rc), ev)"
      using assms(1)
      by (auto simp: executor_node_simps split: prod.splits result.splits)
    from c assms(2) have ce: "check_execution_result (apply_update state u) = Inr next_node"
      by (simp add: executor_edge_simps)
    let ?s = "apply_update state u"
    from terminal_runner_Returned[OF tr] obtain idx k where
      i: "current_step_index state = Some idx" and k: "py_pos (plan state) idx = Some k" and
      len: "length (plan ?s) = length (plan state)" and
      alt: "(current_step_index ?s = Some (idx + 1) \<and> (rc = None \<or> rc = Some 0)
              \<and> status (plan ?s ! k) = ''done'')
            \<or> (current_step_index ?s = Some idx \<and> (\<exists>c. rc = Some c \<and> c \<noteq> 0)
                \<and> status (plan ?s ! k) = ''failed'')"
      by blast
    from check_execution_result_Inr[OF ce] obtain idx' k' where
      i': "current_step_index ?s = Some idx'" and k': "py_pos (plan ?s) idx' = Some k'" and
      n: "next_node =
            (if status (plan ?s ! k') = ''failed'' then ''error_handler'' else ''step_parser'')"
      by blast
    from k have lt: "idx < int (length (plan state))" by (auto dest: py_pos_Some)
    from alt show ?thesis
    proof
      assume "current_step_index ?s = Some (idx + 1) \<and> (rc = None \<or> rc = Some 0)
              \<and> status (plan ?s ! k) = ''done''"
      then have "remaining ?s < remaining state"
        using i lt len by (simp add: remaining_def)
      then show ?thesis by simp
    next
      assume f: "current_step_index ?s = Some idx \<and> (\<exists>c. rc = Some c \<and> c \<noteq> 0)
                \<and> status (plan ?s ! k) = ''failed''"
      then have "idx' = idx" using i' by simp
      then have "k' = k" using k k' py_pos_same_length[OF len, of idx] by simp
      then have "next_node = ''error_handler''" using n f by simp
      moreover have "remaining ?s = remaining state" using f i len by (simp add: remaining_def)
      ultimately show ?thesis using c by (simp add: rank_simps)
    qed
  next
    case d
    with assms(1) have "error_handler state = Inr u"
      by (simp add: executor_node_simps quiet_Returned)
    moreover from d assms(2) have "next_node = END"
      by (simp add: executor_edge_simps)
    ultimately show ?thesis using d by (simp add: error_handler_remaining rank_simps)
  qed
qed

termination executor_walk
proof (relation "measures [\<lambda>(w, k, node, state). remaining state,
                           \<lambda>(w, k, node, state). rank node]", goal_cases)
  case 1
  show ?case by simp
next
  case (2 w k node state r ev ue u ex next_node)
  have n: "executor_node (w k) node state = (Returned (u, ex), ev)"
    using 2 by simp
  show ?case using executor_step_decreases[OF n] 2 by simp
qed

declare executor_walk.simps [simp del]

text \<open>The entry point of the executor graph is \<open>step_parser\<close>.\<close>

definition run_executor :: "(nat \<Rightarrow> os) \<Rightarrow> exec_state \<Rightarrow> run_log" where
  "run_executor w state = executor_walk w 0 ''step_parser'' state"


section \<open>The planner\<close>

text \<open>
  The value that \<open>json.loads\<close> returns. Numbers are integers in the model; the planner
  treats every number alike.
\<close>

datatype json =
    JNull
  | JBool bool
  | JNum int
  | JStr string
  | JArr "json list"
  | JObj "(string \<times> json) list"

type_synonym plan_state = "json GlobalState"
type_synonym plan_update = "json update"

text \<open>\<open>s.replace(old, new)\<close>: every occurrence of \<open>old\<close>, from the left, without overlap.\<close>

function replace :: "string \<Rightarrow> string \<Rightarrow> string \<Rightarrow> string" where
  "replace old new s =
     (if old = [] then new @ concat (map (\<lambda>c. c # new) s)
      else if s = [] then []
      else if take (length old) s = old then new @ replace old new (drop (length old) s)
      else hd s # replace old new (tl s))"
  by pat_completeness auto
termination
  by (relation "measure (\<lambda>(old, new, s). length s)") auto

definition PLANNER_PROMPT :: string where
  \<open>PLANNER_PROMPT = concat (map (\<lambda>l. l @ [CHR 0x0A])
     ['''',
      ''You are an expert technical planner for a CLI Agent.'',
      ''Your goal is to break down a high-level user objective into a series of safe, executable atomic steps.'',
      '''',
      ''Analyze the user's request and the current state.'',
      ''Generate a JSON plan where each item is a step.'',
      '''',
      ''Each step MUST have:'',
      ''- id: unique string (e.g., "step_1")'',
      ''- description: clear explanation of what we are doing'',
      ''- command: the exact shell command to run (or empty if it's a manual/thought step)'',
      ''- risk_level: "LOW" (read-only), "MEDIUM" (creates files), "HIGH" (modifies/deletes), "CRITICAL" (system changes)'',
      '''',
      ''OUTPUT FORMAT:'',
      ''Return a JSON array of objects. Do not wrap in markdown code blocks.'',
      ''Example:'',
      ''['',
      ''  {"id": "1", "description": "List files", "command": "ls -la", "risk_level": "LOW", "status": "pending"},'',
      ''  {"id": "2", "description": "Read file", "command": "cat README.md", "risk_level": "LOW", "status": "pending"}'',
      '']''])\<close>

text \<open>
  The loop \<open>for step in plan_data: if "status" not in step: step["status"] = "pending"\<close>.
  It runs inside the \<open>try\<close>, on whatever \<open>json.loads\<close> returned.
  \<^item> On one element: an object gets the key when it lacks it; on a list, \<open>in\<close> is membership
    and the assignment with a string index raises \<open>TypeError\<close>; on a string, \<open>in\<close> is the
    substring test and the assignment raises \<open>TypeError\<close>; on \<open>null\<close>, a boolean or a number,
    \<open>in\<close> itself raises \<open>TypeError\<close>.
  \<^item> On the whole value: a list is iterated over its elements, an object over its keys, a
    string over its characters; \<open>null\<close>, a boolean or a number is not iterable.
\<close>

definition ensure_step :: "json \<Rightarrow> exn + json" where
  "ensure_step step =
     (case step of
        JObj kvs \<Rightarrow>
          if ''status'' \<in> fst ` set kvs then Inr (JObj kvs)
          else Inr (JObj (kvs @ [(''status'', JStr ''pending'')]))
      | JArr xs \<Rightarrow> if JStr ''status'' \<in> set xs then Inr (JArr xs) else Inl TypeError
      | JStr s \<Rightarrow> if contains ''status'' s then Inr (JStr s) else Inl TypeError
      | JNull \<Rightarrow> Inl TypeError
      | JBool b \<Rightarrow> Inl TypeError
      | JNum n \<Rightarrow> Inl TypeError)"

fun ensure_steps :: "json list \<Rightarrow> exn + json list" where
  "ensure_steps [] = Inr []"
| "ensure_steps (step # steps) =
     (case ensure_step step of
        Inl e \<Rightarrow> Inl e
      | Inr step' \<Rightarrow>
          (case ensure_steps steps of Inl e \<Rightarrow> Inl e | Inr steps' \<Rightarrow> Inr (step' # steps')))"

definition ensure_status :: "json \<Rightarrow> exn + json" where
  "ensure_status plan_data =
     (case plan_data of
        JArr steps \<Rightarrow> (case ensure_steps steps of Inl e \<Rightarrow> Inl e | Inr steps' \<Rightarrow> Inr (JArr steps'))
      | JObj kvs \<Rightarrow>
          (case ensure_steps (map (\<lambda>kv. JStr (fst kv)) kvs) of
             Inl e \<Rightarrow> Inl e
           | Inr keys \<Rightarrow> Inr (JObj kvs))
      | JStr s \<Rightarrow>
          (case ensure_steps (map (\<lambda>c. JStr [c]) s) of
             Inl e \<Rightarrow> Inl e
           | Inr chars \<Rightarrow> Inr (JStr s))
      | JNull \<Rightarrow> Inl TypeError
      | JBool b \<Rightarrow> Inl TypeError
      | JNum n \<Rightarrow> Inl TypeError)"

text \<open>
  \<open>draft_plan\<close>. The completion service (\<open>llm\<close>, from the messages sent to the text of the
  answer), \<open>json.loads\<close> (\<open>loads\<close>) and \<open>str\<close> on an exception (\<open>str_exn\<close>) are given. The
  call of the service stands before the \<open>try\<close>; everything after it is inside.
\<close>

definition parse_plan :: "(string \<Rightarrow> exn + json) \<Rightarrow> string \<Rightarrow> exn + json" where
  "parse_plan loads answer =
     (case loads (strip (replace ''```'' [] (replace ''```json'' [] answer))) of
        Inl e \<Rightarrow> Inl e
      | Inr plan_data \<Rightarrow> ensure_status plan_data)"

definition draft_plan ::
  "(message list \<Rightarrow> string) \<Rightarrow> (string \<Rightarrow> exn + json) \<Rightarrow> (exn \<Rightarrow> string) \<Rightarrow> plan_state
     \<Rightarrow> plan_update" where
  "draft_plan llm loads str_exn state =
     (let response = llm ([SystemMessage PLANNER_PROMPT] @ messages state @
                          [HumanMessage ''Generate a plan for the above request.''])
      in case parse_plan loads response of
           Inr plan_data \<Rightarrow>
             no_update\<lparr>u_plan := Some plan_data, u_current_step_index := Some 0,
                       u_user_validated := Some False\<rparr>
         | Inl e \<Rightarrow>
             no_update\<lparr>u_plan := Some (JArr []),
                       u_messages := Some [SystemMessage (''Error generating plan: '' @ str_exn e)]\<rparr>)"

text \<open>
  The planner sub-graph: the entry point \<open>draft_plan\<close> and its edge to \<open>END\<close>; seen from the
  main graph it is one node, from a state to the state with the update merged.
\<close>

definition planner ::
  "(message list \<Rightarrow> string) \<Rightarrow> (string \<Rightarrow> exn + json) \<Rightarrow> (exn \<Rightarrow> string) \<Rightarrow> plan_state
     \<Rightarrow> exn + plan_state" where
  "planner llm loads str_exn state = Inr (apply_update state (draft_plan llm loads str_exn state))"

section \<open>The researcher\<close>






















section \<open>The main graph\<close>











section \<open>Sample inputs\<close>

text \<open>
  Operating systems: every command exits with the given code; every command runs past the
  timeout and leaves partial output; the cleanup after the timeout raises (a process the
  caller may not signal); the second \<open>communicate()\<close> never returns (a child keeps the pipes
  open, as after \<open>sleep infinity &\<close>).
\<close>

definition os_exit :: "int \<Rightarrow> os" where
  "os_exit rc c t = Exited rc ''out'' ''err''"

definition os_partial :: os where
  "os_partial c t = TimedOut (Collected (Some ''partial'') None)"

definition os_cleanup_fails :: os where
  "os_cleanup_fails c t = TimedOut (CleanupFailed ''[Errno 1] Operation not permitted'')"

definition os_hang :: os where
  "os_hang c t = TimedOut NeverReturns"

definition always :: "os \<Rightarrow> nat \<Rightarrow> os" where
  "always os k = os"

definition list_step :: PlanStep where
  "list_step = \<lparr>id_step = ''1'', description = ''List files'', command = Some (Some ''ls -la''),
                 risk_level = ''LOW'', status = ''pending'', output_step = None\<rparr>"

definition thought_step :: PlanStep where
  "thought_step = \<lparr>id_step = ''2'', description = ''Think'', command = Some None,
                    risk_level = ''LOW'', status = ''pending'', output_step = None\<rparr>"

definition wipe_step :: PlanStep where
  "wipe_step = \<lparr>id_step = ''3'', description = ''Wipe'', command = Some (Some ''rm -rf /''),
                 risk_level = ''CRITICAL'', status = ''pending'', output_step = None\<rparr>"

text \<open>A state as the planner leaves it, and one whose log already has a record.\<close>

definition fresh_state :: "PlanStep list \<Rightarrow> exec_state" where
  "fresh_state p = \<lparr>messages = [HumanMessage ''go''], plan = p, current_step_index = Some 0,
       research_outputs = None, execution_history = None, user_validated = Some False,
       file_context = None, grader_decision = None, route_target = None\<rparr>"





text \<open>
  For the planner: a completion that is not JSON, the parser's answer to it, and the state
  of a thread whose previous plan the user approved.
\<close>

definition llm_garbled :: "message list \<Rightarrow> string" where
  "llm_garbled msgs = ''Sorry, I cannot help with that.''"

definition loads_fail :: "string \<Rightarrow> exn + json" where
  "loads_fail s = Inl JSONDecodeError"

definition str_exn_sample :: "exn \<Rightarrow> string" where
  "str_exn_sample e = ''Expecting value: line 1 column 1 (char 0)''"

definition approved_state :: plan_state where
  "approved_state =
     \<lparr>messages = [HumanMessage ''list files'', HumanMessage ''now clean up''],
      plan = JArr [JObj [(''id'', JStr ''1''), (''description'', JStr ''List files''),
                         (''command'', JStr ''ls -la''), (''risk_level'', JStr ''LOW''),
                         (''status'', JStr ''done'')]],
      current_step_index = Some 1, research_outputs = None, execution_history = None,
      user_validated = Some True, file_context = None, grader_decision = None,
      route_target = None\<rparr>"




section \<open>Properties of the sandbox\<close>

lemma starts_with_iff: "starts_with p s \<longleftrightarrow> (\<exists>b. s = p @ b)"
  by (induction p s rule: starts_with.induct) auto

lemma contains_iff: "contains p s \<longleftrightarrow> (\<exists>a b. s = a @ p @ b)"
proof (induction s)
  case Nil
  then show ?case by auto
next
  case (Cons c cs)
  show ?case
  proof
    assume "contains p (c # cs)"
    then consider "starts_with p (c # cs)" | "contains p cs" by auto
    then show "\<exists>a b. c # cs = a @ p @ b"
    proof cases
      case 1
      then obtain b where "c # cs = p @ b" using starts_with_iff by blast
      then have "c # cs = [] @ p @ b" by simp
      then show ?thesis by blast
    next
      case 2
      then obtain a b where "cs = a @ p @ b" using Cons.IH by blast
      then have "c # cs = (c # a) @ p @ b" by simp
      then show ?thesis by blast
    qed
  next
    assume "\<exists>a b. c # cs = a @ p @ b"
    then obtain a b where ab: "c # cs = a @ p @ b" by blast
    show "contains p (c # cs)"
    proof (cases a)
      case Nil
      with ab have "starts_with p (c # cs)" using starts_with_iff by auto
      then show ?thesis by simp
    next
      case (Cons a0 as)
      with ab have "cs = as @ p @ b" by simp
      then have "contains p cs" using Cons.IH by blast
      then show ?thesis by simp
    qed
  qed
qed

lemma lower_append: "lower (a @ b) = lower a @ lower b"
  by (simp add: lower_def)

lemma blocked_iff:
  "blocked cmd \<longleftrightarrow> (\<exists>pattern \<in> set forbidden_patterns. contains pattern (lower cmd))"
  by (simp add: blocked_def list_ex_iff)

lemma blocked_variant:
  assumes "pattern \<in> set forbidden_patterns" and "lower variant = pattern"
  shows "blocked (pre @ variant @ post)"
proof -
  have "lower (pre @ variant @ post) = lower pre @ pattern @ lower post"
    using assms(2) by (simp add: lower_append)
  then have "contains pattern (lower (pre @ variant @ post))"
    using contains_iff by blast
  then show ?thesis using assms(1) blocked_iff by blast
qed

text \<open>
  C8. A command that contains a pattern of the denylist, written in any mix of upper and
  lower case (\<open>variant\<close> is any string whose lower-casing is the pattern) and with any text,
  whitespace included, before and after it, is answered at once with exit code \<open>-1\<close>, empty
  standard output and the security-block message, and the run has no process event: no
  process is spawned.
\<close>

theorem run_blocks_denylisted:
  assumes "pattern \<in> set forbidden_patterns" and "lower variant = pattern"
  shows "run os (pre @ variant @ post) timeout =
           (Some (- 1, [], ''CRITICAL SECURITY: Command blocked by SafeSubprocess: ''
                             @ (pre @ variant @ post)), [])"
  using blocked_variant [OF assms] by (simp add: run_def)

theorem run_blocks_denylisted_witness:
  "''rm -rf /'' \<in> set forbidden_patterns \<and> lower ''RM -Rf /'' = ''rm -rf /'' \<and>
   run (os_exit 0) (''  sudo '' @ ''RM -Rf /'' @ ''   '') None =
     (Some (- 1, [], ''CRITICAL SECURITY: Command blocked by SafeSubprocess: ''
                       @ (''  sudo '' @ ''RM -Rf /'' @ ''   '')), [])"
proof -
  have p: "''rm -rf /'' \<in> set forbidden_patterns" by (simp add: forbidden_patterns_def)
  have l: "lower ''RM -Rf /'' = ''rm -rf /''" by code_simp
  show ?thesis
    using p l run_blocks_denylisted [OF p l, of "os_exit 0" "''  sudo ''" "''   ''" None]
    by simp
qed

text \<open>
  What the handler of \<open>TimeoutExpired\<close> returns depends on how \<open>kill\<close> and the second
  \<open>communicate()\<close> go. When both return, the answer is exit code \<open>124\<close>, the partial standard
  output and a message that names the timeout, followed by the partial standard error.
\<close>

lemma run_timeout_collected:
  assumes "\<not> blocked cmd"
    and "os cmd (case timeout of Some t \<Rightarrow> t | None \<Rightarrow> default_timeout)
           = TimedOut (Collected outs errs)"
  shows "run os cmd timeout =
           (Some (124, or_empty outs,
                  ''Command timed out after ''
                    @ str_int (case timeout of Some t \<Rightarrow> t | None \<Rightarrow> default_timeout)
                    @ ''s. '' @ or_empty errs),
            [Popen cmd, Kill])"
  using assms by (simp add: run_def)

text \<open>
  C9. The claim says that every command that runs past the timeout is killed and answered,
  without an exception, with exit code \<open>124\<close>. The code does that only when the cleanup goes
  well. When the command has left a child that keeps the pipes open, the second
  \<open>communicate()\<close>, called without a timeout, does not return, and neither does \<open>run\<close>; when
  \<open>kill\<close> raises, the outer handler answers \<open>-1\<close>, not \<open>124\<close>.
\<close>

theorem run_timeout_cleanup_fails:
  "run os_hang ''sleep infinity &'' (Some 1) = (None, [Popen ''sleep infinity &'', Kill])
   \<and> run os_cleanup_fails ''sudo sleep 100'' (Some 1) =
       (Some (- 1, [], ''Execution failed: [Errno 1] Operation not permitted''),
        [Popen ''sudo sleep 100'', Kill])"
proof -
  have a: "\<not> blocked ''sleep infinity &''" by code_simp
  have b: "\<not> blocked ''sudo sleep 100''" by code_simp
  show ?thesis using a b by (simp add: run_def os_hang_def os_cleanup_fails_def)
qed

section \<open>Properties of the executor\<close>

lemma END_neq [simp]:
  "''step_parser'' \<noteq> END" "''safety_guard'' \<noteq> END" "''terminal_runner'' \<noteq> END"
  "''error_handler'' \<noteq> END"
  by (simp_all add: END_def)

lemma apply_no_update [simp]: "apply_update state no_update = state"
  by (simp add: apply_update_def no_update_def overwrite_def)

lemma walk_END:
  "executor_walk w k END state =
     \<lparr>ending = Ended, final = state, visited = [], executed = [], processes = []\<rparr>"
  by (simp add: executor_walk.simps)

lemma walk_step_parser:
  "executor_walk w k ''step_parser'' state =
     (case step_parser state of
        Inl e \<Rightarrow> stopped (Raised ''step_parser'' e) ''step_parser'' state [] []
      | Inr u \<Rightarrow> logged ''step_parser'' [] []
                  (executor_walk w k ''safety_guard'' (apply_update state u)))"
  by (subst executor_walk.simps)
     (simp add: executor_node_simps executor_edge_simps quiet_def split: sum.splits)

lemma walk_safety_guard:
  "executor_walk w k ''safety_guard'' state =
     (case safety_guard state of
        Inl e \<Rightarrow> stopped (Raised ''safety_guard'' e) ''safety_guard'' state [] []
      | Inr u \<Rightarrow> logged ''safety_guard'' [] []
                  (executor_walk w k ''terminal_runner'' (apply_update state u)))"
  by (subst executor_walk.simps)
     (simp add: executor_node_simps executor_edge_simps quiet_def split: sum.splits)

lemma walk_terminal_runner:
  "executor_walk w k ''terminal_runner'' state =
     (case terminal_runner (w k) state of
        (Raises e, ev) \<Rightarrow> stopped (Raised ''terminal_runner'' e) ''terminal_runner'' state [] ev
      | (Hangs, ev) \<Rightarrow> stopped (Stuck ''terminal_runner'') ''terminal_runner'' state [] ev
      | (Returned (u, rc), ev) \<Rightarrow>
          (case check_execution_result (apply_update state u) of
             Inl e \<Rightarrow> stopped (Raised ''terminal_runner'' e) ''terminal_runner''
                        (apply_update state u) [(the (current_step_index state), rc)] ev
           | Inr next_node \<Rightarrow>
               logged ''terminal_runner'' [(the (current_step_index state), rc)] ev
                 (executor_walk w (Suc k) next_node (apply_update state u))))"
  by (subst executor_walk.simps)
     (simp add: executor_node_simps executor_edge_simps
           split: sum.splits prod.splits result.splits)

lemma walk_error_handler:
  "executor_walk w k ''error_handler'' state =
     (case error_handler state of
        Inl e \<Rightarrow> stopped (Raised ''error_handler'' e) ''error_handler'' state [] []
      | Inr u \<Rightarrow> logged ''error_handler'' [] []
                  \<lparr>ending = Ended, final = apply_update state u, visited = [], executed = [],
                    processes = []\<rparr>)"
  by (subst executor_walk.simps)
     (simp add: executor_node_simps executor_edge_simps quiet_def walk_END split: sum.splits)

lemma step_parser_past_end:
  assumes "current_step_index state = Some idx" and "idx \<ge> int (length (plan state))"
  shows "step_parser state = Inr (no_update\<lparr>u_current_step_index := Some idx\<rparr>)"
    and "apply_update state (no_update\<lparr>u_current_step_index := Some idx\<rparr>) = state"
  using assms by (simp_all add: step_parser_def apply_update_def no_update_def overwrite_def)

lemma safety_guard_past_end:
  assumes "current_step_index state = Some idx" and "idx \<ge> int (length (plan state))"
  shows "safety_guard state = Inl IndexError"
  using assms by (simp add: safety_guard_def getitem_def py_pos_def)

lemma safety_guard_Inr:
  assumes "safety_guard state = Inr u"
  shows "u = no_update \<or> u = no_update\<lparr>u_plan := Some (plan state)\<rparr>"
proof (cases "current_step_index state")
  case None
  with assms show ?thesis by (simp add: safety_guard_def)
next
  case (Some idx)
  show ?thesis
  proof (cases "getitem (plan state) idx")
    case (Inl e)
    with assms Some show ?thesis by (simp add: safety_guard_def)
  next
    case (Inr step)
    show ?thesis
    proof (cases "dict_get (command step) (Some [])")
      case None
      with assms Some Inr show ?thesis by (simp add: safety_guard_def)
    next
      case (Some c)
      with assms \<open>current_step_index state = Some idx\<close> Inr show ?thesis
        by (cases "contains ''rm -rf /'' c") (simp_all add: safety_guard_def)
    qed
  qed
qed

lemma safety_guard_noop:
  assumes "safety_guard state = Inr u"
  shows "apply_update state u = state"
  using safety_guard_Inr[OF assms]
  by (auto simp: apply_update_def no_update_def overwrite_def)

text \<open>
  The states on which \<open>safety_guard\<close> returns: the index is set and in range and the
  command is not \<open>None\<close> (a step without the key reads as the empty string).
\<close>

lemma safety_guard_returns_iff:
  "(\<exists>u. safety_guard state = Inr u) \<longleftrightarrow>
     (\<exists>idx k. current_step_index state = Some idx \<and> py_pos (plan state) idx = Some k \<and>
              command (plan state ! k) \<noteq> Some None)"
proof (cases "current_step_index state")
  case None
  then show ?thesis by (simp add: safety_guard_def)
next
  case (Some idx)
  show ?thesis
  proof (cases "py_pos (plan state) idx")
    case None
    with Some show ?thesis by (simp add: safety_guard_def getitem_def)
  next
    case (Some k)
    with \<open>current_step_index state = Some idx\<close> show ?thesis
      by (cases "command (plan state ! k)"; cases "the (command (plan state ! k))")
         (simp_all add: safety_guard_def getitem_def dict_get_def)
  qed
qed

text \<open>
  C2. With \<open>current_step_index\<close> at or past the end of the plan (an empty plan included),
  \<open>step_parser\<close> leaves the state as it is, and the graph then takes its only edge out of
  \<open>step_parser\<close>, to \<open>safety_guard\<close>, which reads \<open>plan[idx]\<close> and raises \<open>IndexError\<close>:
  no conditional edge ends the run. No step is started and no command is run.
\<close>

theorem executor_past_end_raises:
  assumes "current_step_index state = Some idx" and "idx \<ge> int (length (plan state))"
  shows "run_executor w state =
           \<lparr>ending = Raised ''safety_guard'' IndexError, final = state,
             visited = [''step_parser'', ''safety_guard''], executed = [], processes = []\<rparr>"
  unfolding run_executor_def
  by (simp add: walk_step_parser walk_safety_guard step_parser_past_end[OF assms]
                safety_guard_past_end[OF assms] stopped_def logged_def)

theorem executor_past_end_raises_witness:
  "run_executor (always (os_exit 0)) (fresh_state []) =
     \<lparr>ending = Raised ''safety_guard'' IndexError, final = fresh_state [],
       visited = [''step_parser'', ''safety_guard''], executed = [], processes = []\<rparr>"
proof -
  have a: "current_step_index (fresh_state []) = Some 0" by (simp add: fresh_state_def)
  have b: "(0::int) \<ge> int (length (plan (fresh_state [])))" by (simp add: fresh_state_def)
  show ?thesis using executor_past_end_raises [OF a b] .
qed

text \<open>
  A state that has no \<open>execution_history\<close> yet: \<open>state.get("execution_history", [])\<close> is
  the empty list, and the log after the visit holds the one record.
\<close>

lemma terminal_runner_nonzero_exit_no_log:
  assumes "current_step_index state = Some idx" and "py_pos (plan state) idx = Some k"
    and "command (plan state ! k) = Some (Some text)" and "text \<noteq> []"
    and "run os text None = (Some (return_code, stdout, stderr), events)"
    and "return_code \<noteq> 0"
    and "execution_history state = None"
  shows "\<exists>u. terminal_runner os state = (Returned (u, Some return_code), events) \<and>
           execution_history (apply_update state u) =
             Some [[(''step_id'', PyStr (id_step (plan state ! k))),
                    (''command'', PyStr text),
                    (''return_code'', PyInt return_code),
                    (''output'', PyStr (stdout @ [CHR 0x0A] @ stderr))]]"
  using assms
  by (simp add: terminal_runner_def getitem_def setitem_def falsy_def dict_get_def
                apply_update_def no_update_def overwrite_def Let_def)

lemma terminal_runner_null_command_no_log:
  assumes "current_step_index state = Some idx" and "py_pos (plan state) idx = Some k"
    and "command (plan state ! k) = Some None"
    and "execution_history state = None"
  shows "\<exists>u. terminal_runner os state = (Returned (u, None), []) \<and>
           execution_history (apply_update state u) =
             Some [[(''command'', PyNone), (''output'', PyStr ''Skipped (no command)'')]]"
  using assms
  by (simp add: terminal_runner_def getitem_def setitem_def falsy_def dict_get_def
                apply_update_def no_update_def overwrite_def)






text \<open>
  C10. The claim says that on every state \<open>safety_guard\<close> changes nothing and hands over to
  \<open>terminal_runner\<close>. For a step whose command is null, a thought step that
  \<open>terminal_runner\<close> is written to skip, \<open>safety_guard\<close> reads the command with
  \<open>step.get("command", "")\<close>, gets \<open>None\<close>, evaluates \<open>"rm -rf /" in None\<close> and raises
  \<open>TypeError\<close>: the run stops in \<open>safety_guard\<close> and \<open>terminal_runner\<close> is not reached.
\<close>

theorem safety_guard_null_command_raises:
  "safety_guard (fresh_state [thought_step]) = Inl TypeError
   \<and> ending (run_executor (always (os_exit 0)) (fresh_state [thought_step]))
       = Raised ''safety_guard'' TypeError
   \<and> visited (run_executor (always (os_exit 0)) (fresh_state [thought_step]))
       = [''step_parser'', ''safety_guard'']"
  by (simp add: run_executor_def walk_step_parser walk_safety_guard step_parser_def
                safety_guard_def fresh_state_def thought_step_def getitem_def setitem_def
                py_pos_def dict_get_def apply_update_def no_update_def overwrite_def
                stopped_def logged_def)

text \<open>
  C1. The claim says that every run on a non-empty plan terminates. On a plan of one step
  whose command exits with code \<open>0\<close>, \<open>terminal_runner\<close> advances the index to \<open>1\<close>, the
  length of the plan, and the routing function \<open>check_execution_result\<close> then reads
  \<open>plan[1]\<close> before it looks at the bound: the run is aborted by \<open>IndexError\<close> and reaches
  neither \<open>error_handler\<close> nor \<open>END\<close>. On the same plan, when the sandbox does not return (a
  child of the command keeps the pipes open), the run stays in \<open>terminal_runner\<close> for ever.
\<close>

theorem executor_run_does_not_end:
  "ending (run_executor (always (os_exit 0)) (fresh_state [list_step]))
     = Raised ''terminal_runner'' IndexError
   \<and> visited (run_executor (always (os_exit 0)) (fresh_state [list_step]))
       = [''step_parser'', ''safety_guard'', ''terminal_runner'']
   \<and> executed (run_executor (always (os_exit 0)) (fresh_state [list_step])) = [(0, Some 0)]
   \<and> current_step_index (final (run_executor (always (os_exit 0)) (fresh_state [list_step])))
       = Some 1
   \<and> ending (run_executor (always os_hang) (fresh_state [list_step]))
       = Stuck ''terminal_runner''"
  by code_simp

section \<open>Properties of the planner and of the main graph\<close>

lemma draft_plan_failure:
  assumes "parse_plan loads (llm ([SystemMessage PLANNER_PROMPT] @ messages state @
             [HumanMessage ''Generate a plan for the above request.''])) = Inl e"
  shows "draft_plan llm loads str_exn state =
           no_update\<lparr>u_plan := Some (JArr []),
                     u_messages := Some [SystemMessage (''Error generating plan: '' @ str_exn e)]\<rparr>"
  using assms by (simp add: draft_plan_def)

lemma draft_plan_success:
  assumes "parse_plan loads (llm ([SystemMessage PLANNER_PROMPT] @ messages state @
             [HumanMessage ''Generate a plan for the above request.''])) = Inr plan_data"
  shows "draft_plan llm loads str_exn state =
           no_update\<lparr>u_plan := Some plan_data, u_current_step_index := Some 0,
                     u_user_validated := Some False\<rparr>"
  using assms by (simp add: draft_plan_def)

text \<open>
  C3. The claim says that a completion that does not parse yields an empty plan, a
  diagnostic message and \<open>user_validated\<close> reset to false. The update of the \<open>except\<close> branch
  has the keys \<open>plan\<close> and \<open>messages\<close> only. On a thread whose previous plan was approved,
  the plan becomes empty, the diagnostic message is appended, and \<open>user_validated\<close> is still
  true after the merge.
\<close>

theorem draft_plan_failure_keeps_user_validated:
  "u_user_validated (draft_plan llm_garbled loads_fail str_exn_sample approved_state) = None
   \<and> user_validated
        (apply_update approved_state
           (draft_plan llm_garbled loads_fail str_exn_sample approved_state)) = Some True
   \<and> plan (apply_update approved_state
              (draft_plan llm_garbled loads_fail str_exn_sample approved_state)) = JArr []
   \<and> messages (apply_update approved_state
                  (draft_plan llm_garbled loads_fail str_exn_sample approved_state)) =
       messages approved_state @
         [SystemMessage ''Error generating plan: Expecting value: line 1 column 1 (char 0)'']"
  by (simp add: draft_plan_def parse_plan_def loads_fail_def str_exn_sample_def
                approved_state_def apply_update_def no_update_def overwrite_def)





section \<open>Properties of the researcher\<close>























end
